theory Spec2Isabelle
  imports Main "HOL-Library.Word"
begin

section \<open>The C interface of html5ever: the two headers as data\<close>

text \<open>
  The repository's sources are two C headers, both called \<^verbatim>\<open>html5ever.h\<close>:
  \<^verbatim>\<open>capi/html5ever.h\<close> (callbacks receive borrowed \<^verbatim>\<open>struct h5e_buf\<close> views) and
  \<^verbatim>\<open>capi/include/html5ever.h\<close> (callbacks receive \<^verbatim>\<open>tendril\<close> buffers and
  \<^verbatim>\<open>scache_atom\<close> names). A header has no control flow; what it fixes is a list of
  declarations behind an include guard. The declarations are transcribed below line by
  line, in the order of the source.
\<close>

subsection \<open>C types and declarations\<close>

datatype c_type =
    C_void
  | C_int
  | C_size_t
  | C_char
  | C_unsigned_char
  | C_const c_type
  | C_ptr c_type
  | C_struct string
  | C_typedef string

text \<open>A parameter is written as in C: its type, then its name.\<close>

type_synonym c_param = "c_type \<times> string"

text \<open>
  A struct member is a plain field (\<^verbatim>\<open>size_t len;\<close>) or a function pointer
  (\<^verbatim>\<open>void (*do_eof)(void *user);\<close>: return type, member name, parameters).
\<close>

datatype c_member =
    Field c_type string
  | Fun_ptr c_type string "c_param list"

datatype c_decl =
    Struct_def string "c_member list"
  | Struct_decl string
  | Fun_decl c_type string "c_param list"

datatype c_include = System_header string | Local_header string

text \<open>
  A header of the form
  \<^verbatim>\<open>#ifndef G\<close> / \<^verbatim>\<open>#define G\<close> / includes / declarations / \<^verbatim>\<open>#endif\<close>.
\<close>

record c_header =
  guard :: string
  included :: "c_include list"
  decls :: "c_decl list"

subsection \<open>\<^verbatim>\<open>capi/html5ever.h\<close>: the borrowed-view surface\<close>

definition h5e_buf_t :: c_type where
  "h5e_buf_t = C_struct ''h5e_buf''"

definition user_param :: c_param where
  "user_param = (C_ptr C_void, ''user'')"

definition capi_html5ever_h :: c_header where
  "capi_html5ever_h = \<lparr>
     guard = ''__HTML5EVER_H'',
     included = [System_header ''stdlib.h''],
     decls = [
       Struct_def ''h5e_buf'' [
         Field (C_ptr C_unsigned_char) ''data'',
         Field C_size_t ''len''],
       Fun_decl (C_struct ''h5e_buf'') ''h5e_buf_from_cstr''
         [(C_ptr (C_const C_char), ''str'')],
       Struct_def ''h5e_token_ops'' [
         Fun_ptr C_void ''do_doctype''
           [user_param, (h5e_buf_t, ''name''), (h5e_buf_t, ''pub''), (h5e_buf_t, ''sys''),
            (C_int, ''force_quirks'')],
         Fun_ptr C_void ''do_start_tag''
           [user_param, (h5e_buf_t, ''name''), (C_int, ''self_closing''),
            (C_size_t, ''num_attrs'')],
         Fun_ptr C_void ''do_tag_attr''
           [user_param, (h5e_buf_t, ''name''), (h5e_buf_t, ''value'')],
         Fun_ptr C_void ''do_end_tag'' [user_param, (h5e_buf_t, ''name'')],
         Fun_ptr C_void ''do_comment'' [user_param, (h5e_buf_t, ''text'')],
         Fun_ptr C_void ''do_chars'' [user_param, (h5e_buf_t, ''text'')],
         Fun_ptr C_void ''do_null_char'' [user_param],
         Fun_ptr C_void ''do_eof'' [user_param],
         Fun_ptr C_void ''do_error'' [user_param, (h5e_buf_t, ''message'')]],
       Struct_def ''h5e_token_sink'' [
         Field (C_ptr (C_struct ''h5e_token_ops'')) ''ops'',
         Field (C_ptr C_void) ''user''],
       Struct_decl ''h5e_tokenizer'',
       Fun_decl (C_ptr (C_struct ''h5e_tokenizer'')) ''h5e_tokenizer_new''
         [(C_ptr (C_struct ''h5e_token_sink''), ''sink'')],
       Fun_decl C_void ''h5e_tokenizer_free''
         [(C_ptr (C_struct ''h5e_tokenizer''), ''tok'')],
       Fun_decl C_void ''h5e_tokenizer_feed''
         [(C_ptr (C_struct ''h5e_tokenizer''), ''tok''), (h5e_buf_t, ''buf'')],
       Fun_decl C_void ''h5e_tokenizer_end''
         [(C_ptr (C_struct ''h5e_tokenizer''), ''tok'')]]
   \<rparr>"

subsection \<open>\<^verbatim>\<open>capi/include/html5ever.h\<close>: the shared-buffer and atom surface\<close>

text \<open>
  \<^verbatim>\<open>tendril\<close> and \<^verbatim>\<open>scache_atom\<close> are type names that the header takes from
  \<^verbatim>\<open>tendril.h\<close> and \<^verbatim>\<open>string_cache.h\<close>; it uses them by name only.
\<close>

definition tendril_t :: c_type where
  "tendril_t = C_typedef ''tendril''"

definition scache_atom_t :: c_type where
  "scache_atom_t = C_typedef ''scache_atom''"

definition capi_include_html5ever_h :: c_header where
  "capi_include_html5ever_h = \<lparr>
     guard = ''__HTML5EVER_H'',
     included = [System_header ''stdlib.h'', Local_header ''tendril.h'',
                 Local_header ''string_cache.h''],
     decls = [
       Struct_def ''h5e_token_ops'' [
         Fun_ptr C_void ''do_doctype''
           [user_param, (tendril_t, ''name''), (tendril_t, ''pub''), (tendril_t, ''sys''),
            (C_int, ''force_quirks'')],
         Fun_ptr C_void ''do_start_tag''
           [user_param, (scache_atom_t, ''name''), (C_int, ''self_closing''),
            (C_size_t, ''num_attrs'')],
         Fun_ptr C_void ''do_tag_attr''
           [user_param, (scache_atom_t, ''name''), (tendril_t, ''value'')],
         Fun_ptr C_void ''do_end_tag'' [user_param, (scache_atom_t, ''name'')],
         Fun_ptr C_void ''do_comment'' [user_param, (tendril_t, ''text'')],
         Fun_ptr C_void ''do_chars'' [user_param, (tendril_t, ''text'')],
         Fun_ptr C_void ''do_null_char'' [user_param],
         Fun_ptr C_void ''do_eof'' [user_param],
         Fun_ptr C_void ''do_error'' [user_param, (tendril_t, ''message'')]],
       Struct_def ''h5e_token_sink'' [
         Field (C_ptr (C_struct ''h5e_token_ops'')) ''ops'',
         Field (C_ptr C_void) ''user''],
       Struct_decl ''h5e_tokenizer'',
       Fun_decl (C_ptr (C_struct ''h5e_tokenizer'')) ''h5e_tokenizer_new''
         [(C_ptr (C_struct ''h5e_token_sink''), ''sink'')],
       Fun_decl C_void ''h5e_tokenizer_free''
         [(C_ptr (C_struct ''h5e_tokenizer''), ''tok'')],
       Fun_decl C_void ''h5e_tokenizer_feed''
         [(C_ptr (C_struct ''h5e_tokenizer''), ''tok''), (tendril_t, ''buf'')],
       Fun_decl C_void ''h5e_tokenizer_end''
         [(C_ptr (C_struct ''h5e_tokenizer''), ''tok'')]]
   \<rparr>"

subsection \<open>Reading a header\<close>

fun decl_name :: "c_decl \<Rightarrow> string" where
  "decl_name (Struct_def n ms) = n"
| "decl_name (Struct_decl n) = n"
| "decl_name (Fun_decl r n ps) = n"

text \<open>The definition of a struct, by name: its members, when the header defines it.\<close>

fun struct_members :: "c_decl list \<Rightarrow> string \<Rightarrow> c_member list option" where
  "struct_members [] n = None"
| "struct_members (Struct_def m ms # ds) n =
     (if m = n then Some ms else struct_members ds n)"
| "struct_members (d # ds) n = struct_members ds n"

text \<open>
  The payloads of one callback: every parameter of a function-pointer member, as
  (callback, parameter name, parameter type). A plain field carries no payload.
\<close>

fun member_payloads :: "c_member \<Rightarrow> (string \<times> string \<times> c_type) list" where
  "member_payloads (Field t n) = []"
| "member_payloads (Fun_ptr r f ps) = map (\<lambda>(t, p). (f, p, t)) ps"

text \<open>All callback parameters of \<^verbatim>\<open>struct h5e_token_ops\<close>, in declaration order.\<close>

definition ops_payloads :: "c_header \<Rightarrow> (string \<times> string \<times> c_type) list" where
  "ops_payloads h =
     (case struct_members (decls h) ''h5e_token_ops'' of
        None \<Rightarrow> []
      | Some ms \<Rightarrow> concat (map member_payloads ms))"

text \<open>The (callback, parameter) places whose declared type is \<open>t\<close>.\<close>

definition payloads_of_type :: "c_header \<Rightarrow> c_type \<Rightarrow> (string \<times> string) list" where
  "payloads_of_type h t =
     map (\<lambda>(f, p, ty). (f, p)) (filter (\<lambda>(f, p, ty). ty = t) (ops_payloads h))"

text \<open>The places whose declared type is none of the listed ones, with their types.\<close>

definition payloads_not_of_types ::
  "c_header \<Rightarrow> c_type list \<Rightarrow> (string \<times> string \<times> c_type) list" where
  "payloads_not_of_types h ts =
     filter (\<lambda>(f, p, ty). ty \<notin> set ts) (ops_payloads h)"

text \<open>The names a header declares, in declaration order.\<close>

definition declared_names :: "c_header \<Rightarrow> string list" where
  "declared_names h = map decl_name (decls h)"

text \<open>The first declaration of a name in a list of declarations.\<close>

fun find_decl :: "c_decl list \<Rightarrow> string \<Rightarrow> c_decl option" where
  "find_decl [] n = None"
| "find_decl (d # ds) n = (if decl_name d = n then Some d else find_decl ds n)"

text \<open>
  The struct tags a type mentions. A pointer or a \<^verbatim>\<open>const\<close> type mentions what its
  target mentions; \<^verbatim>\<open>tendril\<close> and \<^verbatim>\<open>scache_atom\<close> are names of other headers and
  mention no struct of this one.
\<close>

fun type_structs :: "c_type \<Rightarrow> string list" where
  "type_structs (C_struct n) = [n]"
| "type_structs (C_ptr t) = type_structs t"
| "type_structs (C_const t) = type_structs t"
| "type_structs t = []"

fun member_structs :: "c_member \<Rightarrow> string list" where
  "member_structs (Field t n) = type_structs t"
| "member_structs (Fun_ptr r f ps) = type_structs r @ concat (map (\<lambda>(t, p). type_structs t) ps)"

text \<open>The struct tags a declaration mentions in its members, parameters or return type.\<close>

fun decl_structs :: "c_decl \<Rightarrow> string list" where
  "decl_structs (Struct_def n ms) = concat (map member_structs ms)"
| "decl_structs (Struct_decl n) = []"
| "decl_structs (Fun_decl r n ps) = type_structs r @ concat (map (\<lambda>(t, p). type_structs t) ps)"

text \<open>The struct tags a list of declarations declares or defines.\<close>

fun struct_tags :: "c_decl list \<Rightarrow> string list" where
  "struct_tags [] = []"
| "struct_tags (Struct_def n ms # ds) = n # struct_tags ds"
| "struct_tags (Struct_decl n # ds) = n # struct_tags ds"
| "struct_tags (d # ds) = struct_tags ds"

text \<open>
  The declaration of \<open>n\<close> mentions a struct of the header whose tag is among \<open>cs\<close>.
\<close>

definition mentions_struct_of :: "c_decl list \<Rightarrow> string \<Rightarrow> string list \<Rightarrow> bool" where
  "mentions_struct_of ds n cs =
     (case find_decl ds n of
        None \<Rightarrow> False
      | Some d \<Rightarrow> list_ex (\<lambda>r. r \<in> set cs \<and> r \<in> set (struct_tags ds)) (decl_structs d))"

text \<open>
  The names that two headers both declare incompatibly. C has one namespace for struct
  tags and one for functions, and no overloading, so such a name cannot carry both
  meanings. Two declarations of a name are incompatible when they are written
  differently, and also when they are written alike but mention a struct that the two
  headers declare incompatibly: \<^verbatim>\<open>struct h5e_token_ops *ops\<close> reads the same in both
  files and denotes a pointer to two different structs. One step adds to the names \<open>cs\<close>
  known as incompatible those that are written differently or mention a struct of \<open>cs\<close>.
\<close>

definition conflict_step :: "c_header \<Rightarrow> c_header \<Rightarrow> string list \<Rightarrow> string list" where
  "conflict_step a b cs =
     filter (\<lambda>n. n \<in> set (declared_names b)
                \<and> (mentions_struct_of (decls a) n cs
                    \<or> find_decl (decls a) n \<noteq> find_decl (decls b) n))
       (declared_names a)"

text \<open>
  The step is repeated from the empty list once per declared name: each repetition that
  changes the list adds a name, so this many repetitions reach the closure.
\<close>

definition conflicting_names :: "c_header \<Rightarrow> c_header \<Rightarrow> string list" where
  "conflicting_names a b = (conflict_step a b ^^ length (declared_names a)) []"

subsection \<open>Including a guarded header in a translation unit\<close>

text \<open>
  Both files open with \<^verbatim>\<open>#ifndef __HTML5EVER_H\<close>, \<^verbatim>\<open>#define __HTML5EVER_H\<close> and
  close with \<^verbatim>\<open>#endif\<close>. The preprocessor keeps the body only when the guard macro is
  not defined yet, and then defines it. A translation unit is the macros defined so far
  and the declarations made visible so far.
\<close>

record translation_unit =
  macros :: "string list"
  visible :: "c_decl list"

definition empty_unit :: translation_unit where
  "empty_unit = \<lparr>macros = [], visible = []\<rparr>"

definition include_header :: "c_header \<Rightarrow> translation_unit \<Rightarrow> translation_unit" where
  "include_header h u =
     (if guard h \<in> set (macros u) then u
      else \<lparr>macros = guard h # macros u, visible = visible u @ decls h\<rparr>)"

subsection \<open>Linking against a surface\<close>

text \<open>
  The functions a header declares have external linkage and plain C names. A program
  binds each external name to one function, which has one signature (return type and
  parameter types). A program provides a surface when every function the header declares
  is bound to a function of the declared signature.
\<close>

type_synonym c_signature = "c_type \<times> c_type list"

fun fun_signatures :: "c_decl list \<Rightarrow> (string \<times> c_signature) list" where
  "fun_signatures [] = []"
| "fun_signatures (Fun_decl r n ps # ds) = (n, (r, map fst ps)) # fun_signatures ds"
| "fun_signatures (d # ds) = fun_signatures ds"

definition provides :: "(string \<Rightarrow> c_signature option) \<Rightarrow> c_header \<Rightarrow> bool" where
  "provides link h = list_all (\<lambda>(n, sg). link n = Some sg) (fun_signatures (decls h))"

section \<open>Borrowed views over memory\<close>

text \<open>
  \<^verbatim>\<open>struct h5e_buf { unsigned char *data; size_t len; };\<close>
  Memory is a finite run of bytes and an address is an index into it. \<^verbatim>\<open>size_t\<close> is as
  wide as an address, so the length of any span of memory fits it; both fields are
  natural numbers here.
\<close>

type_synonym byte = "8 word"

type_synonym memory = "byte list"

record h5e_buf =
  data :: nat
  len :: nat

text \<open>The view is inside memory: \<open>len\<close> bytes starting at \<open>data\<close> exist.\<close>

definition view_valid :: "memory \<Rightarrow> h5e_buf \<Rightarrow> bool" where
  "view_valid mem v = (data v + len v \<le> length mem)"

text \<open>The bytes a view covers.\<close>

definition view_bytes :: "memory \<Rightarrow> h5e_buf \<Rightarrow> byte list" where
  "view_bytes mem v = take (len v) (drop (data v) mem)"

text \<open>A C string literal in memory: its characters, then the terminating NUL.\<close>

definition cstr_literal :: "string \<Rightarrow> byte list" where
  "cstr_literal s = map (\<lambda>c. word_of_nat (of_char c)) s @ [0]"

text \<open>
  Modelled from the spec: the body of \<^verbatim>\<open>h5e_buf_from_cstr\<close>, which the header
  \<^verbatim>\<open>capi/html5ever.h\<close> declares (\<^verbatim>\<open>struct h5e_buf h5e_buf_from_cstr(const char *str);\<close>)
  and no source file defines. The spec: "constructing a borrowed view from a
  null-terminated string computes length via scan-to-terminator and produces a view whose
  address/length are valid". The scan counts the bytes before the first NUL; when memory
  ends before any NUL the scan reads out of bounds, which is \<open>None\<close> here.
\<close>

fun scan_to_terminator :: "byte list \<Rightarrow> nat option" where
  "scan_to_terminator [] = None"
| "scan_to_terminator (b # bs) =
     (if b = 0 then Some 0 else map_option Suc (scan_to_terminator bs))"

definition h5e_buf_from_cstr :: "memory \<Rightarrow> nat \<Rightarrow> h5e_buf option" where
  "h5e_buf_from_cstr mem str =
     (case scan_to_terminator (drop str mem) of
        None \<Rightarrow> None
      | Some n \<Rightarrow> Some \<lparr>data = str, len = n\<rparr>)"

section \<open>Interned atoms\<close>

text \<open>
  Modelled from the spec: the atom table behind \<^verbatim>\<open>scache_atom\<close>. The header
  \<^verbatim>\<open>capi/include/html5ever.h\<close> takes the type from \<^verbatim>\<open>string_cache.h\<close>, which is not
  among the sources, and declares no interning function. The spec: "looking up a byte
  span returns an existing atom if present, else inserts and returns a fresh one", with
  handles that are "small comparable values (index or hash)" compared by "a constant-time
  handle comparison rather than a byte comparison". The table is the list of interned
  spans in order of insertion; an atom is the index of its span.
\<close>

type_synonym scache_atom = nat

type_synonym atom_table = "byte list list"

fun atom_lookup :: "atom_table \<Rightarrow> byte list \<Rightarrow> scache_atom option" where
  "atom_lookup [] s = None"
| "atom_lookup (e # t) s = (if e = s then Some 0 else map_option Suc (atom_lookup t s))"

definition atom_intern :: "atom_table \<Rightarrow> byte list \<Rightarrow> scache_atom \<times> atom_table" where
  "atom_intern t s =
     (case atom_lookup t s of
        Some a \<Rightarrow> (a, t)
      | None \<Rightarrow> (length t, t @ [s]))"

text \<open>A run of interning operations on one table: the handles returned, in order.\<close>

fun intern_all :: "atom_table \<Rightarrow> byte list list \<Rightarrow> scache_atom list \<times> atom_table" where
  "intern_all t [] = ([], t)"
| "intern_all t (s # ss) =
     (case atom_intern t s of
        (a, t') \<Rightarrow> (case intern_all t' ss of (as, t'') \<Rightarrow> (a # as, t'')))"

section \<open>Payload typing of the shared-buffer surface\<close>

text \<open>
  C9. In \<^verbatim>\<open>capi/include/html5ever.h\<close> exactly three callback payloads are interned
  atoms: the name of \<^verbatim>\<open>do_start_tag\<close>, the name of \<^verbatim>\<open>do_tag_attr\<close> and the name of
  \<^verbatim>\<open>do_end_tag\<close>. Every other textual payload (the doctype's name, public and system
  identifiers, the attribute value, the comment text, the character data and the error
  message) is a \<^verbatim>\<open>tendril\<close>. What remains is no text at all: the \<^verbatim>\<open>user\<close> pointer
  of each of the nine callbacks, the two \<^verbatim>\<open>int\<close> flags and the \<^verbatim>\<open>size_t\<close> count.
\<close>

theorem shared_surface_payload_typing:
  "payloads_of_type capi_include_html5ever_h scache_atom_t =
     [(''do_start_tag'', ''name''), (''do_tag_attr'', ''name''), (''do_end_tag'', ''name'')]
   \<and> payloads_of_type capi_include_html5ever_h tendril_t =
     [(''do_doctype'', ''name''), (''do_doctype'', ''pub''), (''do_doctype'', ''sys''),
      (''do_tag_attr'', ''value''), (''do_comment'', ''text''), (''do_chars'', ''text''),
      (''do_error'', ''message'')]
   \<and> payloads_not_of_types capi_include_html5ever_h [scache_atom_t, tendril_t] =
     [(''do_doctype'', ''user'', C_ptr C_void), (''do_doctype'', ''force_quirks'', C_int),
      (''do_start_tag'', ''user'', C_ptr C_void), (''do_start_tag'', ''self_closing'', C_int),
      (''do_start_tag'', ''num_attrs'', C_size_t),
      (''do_tag_attr'', ''user'', C_ptr C_void), (''do_end_tag'', ''user'', C_ptr C_void),
      (''do_comment'', ''user'', C_ptr C_void), (''do_chars'', ''user'', C_ptr C_void),
      (''do_null_char'', ''user'', C_ptr C_void), (''do_eof'', ''user'', C_ptr C_void),
      (''do_error'', ''user'', C_ptr C_void)]"
  by (simp add: payloads_of_type_def payloads_not_of_types_def ops_payloads_def
      capi_include_html5ever_h_def scache_atom_t_def tendril_t_def user_param_def)

section \<open>The two surfaces exclude each other\<close>

lemma conflict_step_written_differently:
  "conflict_step capi_html5ever_h capi_include_html5ever_h [] =
     [''h5e_token_ops'', ''h5e_tokenizer_feed'']"
  by (simp add: conflict_step_def mentions_struct_of_def declared_names_def
      capi_html5ever_h_def capi_include_html5ever_h_def h5e_buf_t_def tendril_t_def
      scache_atom_t_def user_param_def)

lemma conflict_step_through_ops:
  "conflict_step capi_html5ever_h capi_include_html5ever_h
     [''h5e_token_ops'', ''h5e_tokenizer_feed''] =
     [''h5e_token_ops'', ''h5e_token_sink'', ''h5e_tokenizer_feed'']"
  by (simp add: conflict_step_def mentions_struct_of_def declared_names_def
      capi_html5ever_h_def capi_include_html5ever_h_def h5e_buf_t_def tendril_t_def
      scache_atom_t_def user_param_def)

lemma conflict_step_through_sink:
  "conflict_step capi_html5ever_h capi_include_html5ever_h
     [''h5e_token_ops'', ''h5e_token_sink'', ''h5e_tokenizer_feed''] =
     [''h5e_token_ops'', ''h5e_token_sink'', ''h5e_tokenizer_new'', ''h5e_tokenizer_feed'']"
  by (simp add: conflict_step_def mentions_struct_of_def declared_names_def
      capi_html5ever_h_def capi_include_html5ever_h_def h5e_buf_t_def tendril_t_def
      scache_atom_t_def user_param_def)

lemma conflict_step_closed:
  "conflict_step capi_html5ever_h capi_include_html5ever_h
     [''h5e_token_ops'', ''h5e_token_sink'', ''h5e_tokenizer_new'', ''h5e_tokenizer_feed''] =
     [''h5e_token_ops'', ''h5e_token_sink'', ''h5e_tokenizer_new'', ''h5e_tokenizer_feed'']"
  by (simp add: conflict_step_def mentions_struct_of_def declared_names_def
      capi_html5ever_h_def capi_include_html5ever_h_def h5e_buf_t_def tendril_t_def
      scache_atom_t_def user_param_def)

lemma length_declared_names_borrowed: "length (declared_names capi_html5ever_h) = 9"
  by (simp add: declared_names_def capi_html5ever_h_def)

lemma conflicting_names_headers:
  "conflicting_names capi_html5ever_h capi_include_html5ever_h =
     [''h5e_token_ops'', ''h5e_token_sink'', ''h5e_tokenizer_new'', ''h5e_tokenizer_feed'']"
  by (simp add: conflicting_names_def length_declared_names_borrowed eval_nat_numeral
      conflict_step_written_differently conflict_step_through_ops
      conflict_step_through_sink conflict_step_closed)

text \<open>
  C10. The two headers are alternatives. They use the same include guard
  \<^verbatim>\<open>__HTML5EVER_H\<close>. Every name the shared-buffer header declares is declared by the
  borrowed-view header too (which adds \<^verbatim>\<open>h5e_buf\<close> and \<^verbatim>\<open>h5e_buf_from_cstr\<close>). Four
  of these names are declared incompatibly: \<^verbatim>\<open>struct h5e_token_ops\<close> (whose callbacks
  take different payload types) and \<^verbatim>\<open>h5e_tokenizer_feed\<close> (whose buffer parameter
  differs) are written differently; \<^verbatim>\<open>struct h5e_token_sink\<close> is written alike in
  both files but holds a pointer to \<^verbatim>\<open>struct h5e_token_ops\<close>, and
  \<^verbatim>\<open>h5e_tokenizer_new\<close> takes a pointer to \<^verbatim>\<open>struct h5e_token_sink\<close>. These four
  are all: a further step adds nothing, and \<^verbatim>\<open>struct h5e_tokenizer\<close>,
  \<^verbatim>\<open>h5e_tokenizer_free\<close> and \<^verbatim>\<open>h5e_tokenizer_end\<close> agree. A translation unit that
  includes both headers, in either order, sees the declarations of the first only, since
  the guard empties the second. No program binds the shared function names so that both
  surfaces are provided.
\<close>

theorem abi_surfaces_mutually_exclusive:
  "guard capi_html5ever_h = ''__HTML5EVER_H''
   \<and> guard capi_include_html5ever_h = guard capi_html5ever_h
   \<and> declared_names capi_include_html5ever_h =
       [''h5e_token_ops'', ''h5e_token_sink'', ''h5e_tokenizer'', ''h5e_tokenizer_new'',
        ''h5e_tokenizer_free'', ''h5e_tokenizer_feed'', ''h5e_tokenizer_end'']
   \<and> declared_names capi_html5ever_h =
       ''h5e_buf'' # ''h5e_buf_from_cstr'' # declared_names capi_include_html5ever_h
   \<and> conflict_step capi_html5ever_h capi_include_html5ever_h [] =
       [''h5e_token_ops'', ''h5e_tokenizer_feed'']
   \<and> conflicting_names capi_html5ever_h capi_include_html5ever_h =
       [''h5e_token_ops'', ''h5e_token_sink'', ''h5e_tokenizer_new'', ''h5e_tokenizer_feed'']
   \<and> conflict_step capi_html5ever_h capi_include_html5ever_h
         (conflicting_names capi_html5ever_h capi_include_html5ever_h) =
       conflicting_names capi_html5ever_h capi_include_html5ever_h
   \<and> conflicting_names capi_include_html5ever_h capi_html5ever_h =
       conflicting_names capi_html5ever_h capi_include_html5ever_h
   \<and> visible (include_header capi_include_html5ever_h
                (include_header capi_html5ever_h empty_unit)) = decls capi_html5ever_h
   \<and> visible (include_header capi_html5ever_h
                (include_header capi_include_html5ever_h empty_unit)) =
       decls capi_include_html5ever_h
   \<and> decls capi_html5ever_h \<noteq> decls capi_include_html5ever_h
   \<and> \<not> (\<exists>link. provides link capi_html5ever_h \<and> provides link capi_include_html5ever_h)"
proof -
  have guards: "guard capi_html5ever_h = ''__HTML5EVER_H''"
    "guard capi_include_html5ever_h = guard capi_html5ever_h"
    by (simp_all add: capi_html5ever_h_def capi_include_html5ever_h_def)
  have names_shared: "declared_names capi_include_html5ever_h =
       [''h5e_token_ops'', ''h5e_token_sink'', ''h5e_tokenizer'', ''h5e_tokenizer_new'',
        ''h5e_tokenizer_free'', ''h5e_tokenizer_feed'', ''h5e_tokenizer_end'']"
    by (simp add: declared_names_def capi_include_html5ever_h_def)
  have names_borrowed: "declared_names capi_html5ever_h =
       ''h5e_buf'' # ''h5e_buf_from_cstr'' # declared_names capi_include_html5ever_h"
    by (simp add: declared_names_def capi_html5ever_h_def capi_include_html5ever_h_def)
  note written = conflict_step_written_differently
  note conflicts = conflicting_names_headers
  have closed: "conflict_step capi_html5ever_h capi_include_html5ever_h
         (conflicting_names capi_html5ever_h capi_include_html5ever_h) =
       conflicting_names capi_html5ever_h capi_include_html5ever_h"
    by (simp only: conflicts conflict_step_closed)
  have symmetric: "conflicting_names capi_include_html5ever_h capi_html5ever_h =
       conflicting_names capi_html5ever_h capi_include_html5ever_h"
    unfolding conflicts
    by (simp add: conflicting_names_def conflict_step_def mentions_struct_of_def
        declared_names_def capi_html5ever_h_def capi_include_html5ever_h_def h5e_buf_t_def
        tendril_t_def scache_atom_t_def user_param_def)
  have borrowed_first: "visible (include_header capi_include_html5ever_h
                (include_header capi_html5ever_h empty_unit)) = decls capi_html5ever_h"
    by (simp add: include_header_def empty_unit_def guards)
  have shared_first: "visible (include_header capi_html5ever_h
                (include_header capi_include_html5ever_h empty_unit)) =
       decls capi_include_html5ever_h"
    by (simp add: include_header_def empty_unit_def guards)
  have differ: "decls capi_html5ever_h \<noteq> decls capi_include_html5ever_h"
    by (simp add: capi_html5ever_h_def capi_include_html5ever_h_def)
  have no_link: "\<not> (\<exists>link. provides link capi_html5ever_h
                        \<and> provides link capi_include_html5ever_h)"
  proof
    assume "\<exists>link. provides link capi_html5ever_h \<and> provides link capi_include_html5ever_h"
    then obtain link where b: "provides link capi_html5ever_h"
      and s: "provides link capi_include_html5ever_h" by blast
    from b have "link ''h5e_tokenizer_feed'' =
        Some (C_void, [C_ptr (C_struct ''h5e_tokenizer''), h5e_buf_t])"
      by (simp add: provides_def capi_html5ever_h_def)
    moreover from s have "link ''h5e_tokenizer_feed'' =
        Some (C_void, [C_ptr (C_struct ''h5e_tokenizer''), tendril_t])"
      by (simp add: provides_def capi_include_html5ever_h_def)
    ultimately show False
      by (simp add: h5e_buf_t_def tendril_t_def)
  qed
  show ?thesis
    by (intro conjI guards names_shared names_borrowed written conflicts closed symmetric
        borrowed_first shared_first differ no_link)
qed

section \<open>A view over a C string\<close>

lemma scan_to_terminator_takeWhile:
  "0 \<in> set bs \<Longrightarrow> scan_to_terminator bs = Some (length (takeWhile (\<lambda>b. b \<noteq> 0) bs))"
  by (induction bs) auto

lemma scan_to_terminator_None: "0 \<notin> set bs \<Longrightarrow> scan_to_terminator bs = None"
  by (induction bs) auto

lemma takeWhile_before_end:
  "(0::byte) \<in> set bs \<Longrightarrow> length (takeWhile (\<lambda>b. b \<noteq> 0) bs) < length bs"
  by (induction bs) auto

text \<open>Without a terminator in memory after \<open>str\<close> the scan leaves memory.\<close>

lemma h5e_buf_from_cstr_unterminated:
  "0 \<notin> set (drop str mem) \<Longrightarrow> h5e_buf_from_cstr mem str = None"
  by (simp add: h5e_buf_from_cstr_def scan_to_terminator_None)

text \<open>
  C7. For a NUL-terminated string at address \<open>str\<close> (some byte at or after \<open>str\<close> is
  NUL), \<^verbatim>\<open>h5e_buf_from_cstr\<close> returns a view that starts at \<open>str\<close>, whose \<open>len\<close> is the
  number of bytes before the first NUL, that lies inside memory, and that covers exactly
  those bytes: none of them is NUL and the byte right after them is the terminator. For
  the literal \<^verbatim>\<open>"div"\<close> the view has length 3 and bytes \<open>d\<close>, \<open>i\<close>, \<open>v\<close> (the
  instance below).
\<close>

theorem h5e_buf_from_cstr_view:
  assumes "0 \<in> set (drop str mem)"
  shows "\<exists>v. h5e_buf_from_cstr mem str = Some v
           \<and> data v = str
           \<and> len v = length (takeWhile (\<lambda>b. b \<noteq> 0) (drop str mem))
           \<and> view_valid mem v
           \<and> view_bytes mem v = takeWhile (\<lambda>b. b \<noteq> 0) (drop str mem)
           \<and> 0 \<notin> set (view_bytes mem v)
           \<and> mem ! (str + len v) = 0"
proof -
  let ?s = "drop str mem"
  let ?n = "length (takeWhile (\<lambda>b. b \<noteq> 0) ?s)"
  let ?v = "\<lparr>data = str, len = ?n\<rparr>"
  have res: "h5e_buf_from_cstr mem str = Some ?v"
    using assms by (simp add: h5e_buf_from_cstr_def scan_to_terminator_takeWhile)
  have lt: "?n < length ?s"
    using assms by (rule takeWhile_before_end)
  then have valid: "view_valid mem ?v"
    by (simp add: view_valid_def)
  have bytes: "view_bytes mem ?v = takeWhile (\<lambda>b. b \<noteq> 0) ?s"
    by (simp add: view_bytes_def takeWhile_eq_take [symmetric])
  have nonul: "0 \<notin> set (view_bytes mem ?v)"
    unfolding bytes by (auto dest: set_takeWhileD)
  have "\<not> (?s ! ?n \<noteq> 0)"
    using lt by (rule nth_length_takeWhile)
  then have nul_at: "mem ! (str + len ?v) = 0"
    using lt by simp
  from res valid bytes nonul nul_at show ?thesis by simp
qed

text \<open>
  The literal \<^verbatim>\<open>"div"\<close> stored at address 2, between other bytes: the view is
  \<open>(2, 3)\<close> and its bytes are \<open>0x64 0x69 0x76\<close>.
\<close>

theorem h5e_buf_from_cstr_div:
  "0 \<in> set (drop 2 ([1, 2] @ cstr_literal ''div'' @ [9]))
   \<and> h5e_buf_from_cstr ([1, 2] @ cstr_literal ''div'' @ [9]) 2 = Some \<lparr>data = 2, len = 3\<rparr>
   \<and> view_bytes ([1, 2] @ cstr_literal ''div'' @ [9]) \<lparr>data = 2, len = 3\<rparr>
       = [0x64, 0x69, 0x76]"
proof -
  have h: "0 \<in> set (drop 2 ([1, 2] @ cstr_literal ''div'' @ [9]))"
    by (simp add: cstr_literal_def)
  show ?thesis
    using h h5e_buf_from_cstr_view [OF h]
    by (simp add: cstr_literal_def view_bytes_def h5e_buf_from_cstr_def)
qed

section \<open>Interning is injective\<close>

lemma atom_lookup_Some:
  "atom_lookup t s = Some a \<Longrightarrow> a < length t \<and> t ! a = s"
  by (induction t arbitrary: a) (auto split: if_splits)

lemma atom_lookup_None: "(atom_lookup t s = None) = (s \<notin> set t)"
  by (induction t) auto

text \<open>
  One interning step keeps the table free of duplicates, only ever appends to it, and
  returns a handle that denotes the span.
\<close>

lemma atom_intern_step:
  assumes "atom_intern t s = (a, t')" and "distinct t"
  shows "distinct t' \<and> (\<exists>e. t' = t @ e) \<and> a < length t' \<and> t' ! a = s
         \<and> set t' = insert s (set t)"
proof (cases "atom_lookup t s")
  case None
  then have "s \<notin> set t" by (simp add: atom_lookup_None)
  moreover from None assms(1) have "a = length t" "t' = t @ [s]"
    by (simp_all add: atom_intern_def)
  ultimately show ?thesis using assms(2) by auto
next
  case (Some b)
  with assms(1) have eq: "a = b" "t' = t" by (simp_all add: atom_intern_def)
  from Some have "b < length t \<and> t ! b = s" by (rule atom_lookup_Some)
  with eq assms(2) show ?thesis by (auto simp: insert_absorb)
qed

text \<open>
  Over a run of interning operations: every handle returned, early or late, denotes its
  span in the final table, because entries are never moved or removed.
\<close>

lemma intern_all_inv:
  assumes "intern_all t0 ss = (hs, t)" and "distinct t0"
  shows "distinct t \<and> (\<exists>e. t = t0 @ e) \<and> length hs = length ss
         \<and> (\<forall>i<length ss. hs ! i < length t \<and> t ! (hs ! i) = ss ! i)
         \<and> set t = set t0 \<union> set ss"
  using assms
proof (induction ss arbitrary: t0 hs t)
  case Nil
  then show ?case by simp
next
  case (Cons s ss)
  obtain a t1 where step: "atom_intern t0 s = (a, t1)" by (cases "atom_intern t0 s")
  obtain as t2 where rest: "intern_all t1 ss = (as, t2)" by (cases "intern_all t1 ss")
  from Cons.prems(1) step rest have hs: "hs = a # as" and t: "t = t2" by simp_all
  from atom_intern_step [OF step Cons.prems(2)]
  have d1: "distinct t1" and e1: "\<exists>e. t1 = t0 @ e" and a1: "a < length t1" "t1 ! a = s"
    and s1: "set t1 = insert s (set t0)" by blast+
  from Cons.IH [OF rest d1]
  have d2: "distinct t2" and e2: "\<exists>e. t2 = t1 @ e" and l2: "length as = length ss"
    and n2: "\<forall>i<length ss. as ! i < length t2 \<and> t2 ! (as ! i) = ss ! i"
    and s2: "set t2 = set t1 \<union> set ss" by blast+
  from e2 obtain e where t2: "t2 = t1 @ e" by blast
  have head: "a < length t2 \<and> t2 ! a = s"
    using a1 by (simp add: t2 nth_append)
  have "\<forall>i<length (s # ss). (a # as) ! i < length t2 \<and> t2 ! ((a # as) ! i) = (s # ss) ! i"
  proof (intro allI impI)
    fix i assume "i < length (s # ss)"
    then show "(a # as) ! i < length t2 \<and> t2 ! ((a # as) ! i) = (s # ss) ! i"
      using head n2 by (cases i) auto
  qed
  moreover from e1 e2 have "\<exists>e. t2 = t0 @ e" by auto
  moreover from s1 s2 have "set t2 = set t0 \<union> set (s # ss)" by auto
  ultimately show ?case using d2 l2 hs t by simp
qed

text \<open>
  C5. Start from the empty table and intern any sequence of spans \<open>ss\<close>, getting the
  handles \<open>hs\<close>. Two handles are equal exactly when the two spans interned are equal,
  whatever was interned in between: the same span always gives the same handle, and
  different spans give different handles. Every handle denotes its span in the final
  table, which holds each span that occurred exactly once: the first occurrence inserted
  it and no later one did. Nothing is required of a span, so the empty span is interned
  like any other.
\<close>

theorem atom_interning_injective:
  assumes "intern_all [] ss = (hs, t)"
  shows "length hs = length ss
         \<and> (\<forall>i<length ss. \<forall>j<length ss. (hs ! i = hs ! j) = (ss ! i = ss ! j))
         \<and> (\<forall>i<length ss. hs ! i < length t \<and> t ! (hs ! i) = ss ! i)
         \<and> distinct t \<and> set t = set ss"
proof -
  from intern_all_inv [OF assms]
  have d: "distinct t" and l: "length hs = length ss"
    and n: "\<forall>i<length ss. hs ! i < length t \<and> t ! (hs ! i) = ss ! i"
    and s: "set t = set ss" by simp_all
  have "\<forall>i<length ss. \<forall>j<length ss. (hs ! i = hs ! j) = (ss ! i = ss ! j)"
  proof (intro allI impI)
    fix i j assume i: "i < length ss" and j: "j < length ss"
    from n i have hi: "hs ! i < length t" "t ! (hs ! i) = ss ! i" by simp_all
    from n j have hj: "hs ! j < length t" "t ! (hs ! j) = ss ! j" by simp_all
    show "(hs ! i = hs ! j) = (ss ! i = ss ! j)"
    proof
      assume "hs ! i = hs ! j"
      with hi hj show "ss ! i = ss ! j" by simp
    next
      assume "ss ! i = ss ! j"
      with hi hj have "t ! (hs ! i) = t ! (hs ! j)" by simp
      with d hi(1) hj(1) show "hs ! i = hs ! j" by (simp add: nth_eq_iff_index_eq)
    qed
  qed
  with d l n s show ?thesis by simp
qed

text \<open>
  Interning \<^verbatim>\<open>div\<close>, the empty span, \<^verbatim>\<open>span\<close>, \<^verbatim>\<open>div\<close> again and the empty span
  again: three atoms are created, and the fourth and fifth calls return the first and
  second handle.
\<close>

theorem atom_interning_example:
  "intern_all [] [[0x64, 0x69, 0x76], [], [0x73, 0x70, 0x61, 0x6E], [0x64, 0x69, 0x76], []]
     = ([0, 1, 2, 0, 1], [[0x64, 0x69, 0x76], [], [0x73, 0x70, 0x61, 0x6E]])
   \<and> distinct [[0x64, 0x69, 0x76], [], [0x73, 0x70, 0x61, 0x6E :: byte]]
   \<and> ([0, 1, 2, 0, 1] ! 3 = [0, 1, 2, 0, 1 :: nat] ! 0)
   \<and> ([0, 1, 2, 0, 1] ! 4 = [0, 1, 2, 0, 1 :: nat] ! 1)
   \<and> ([0, 1, 2, 0, 1] ! 2 \<noteq> [0, 1, 2, 0, 1 :: nat] ! 0)"
proof -
  have h: "intern_all [] [[0x64, 0x69, 0x76], [], [0x73, 0x70, 0x61, 0x6E], [0x64, 0x69, 0x76], []]
     = ([0, 1, 2, 0, 1], [[0x64, 0x69, 0x76], [], [0x73, 0x70, 0x61, 0x6E]])"
    by (simp add: atom_intern_def)
  from atom_interning_injective [OF h] show ?thesis
    using h by simp
qed

end
